theory Spec2Isabelle
  imports Main "HOL-Library.Sublist"
begin

section \<open>The pre-commit linter of Oppia (scripts/pre_commit_linter.py)\<close>

text \<open>
  The script picks the files to lint (an explicit path, or the files git reports as
  changed), keeps those ending in \<^verbatim>\<open>.js\<close> and \<^verbatim>\<open>.py\<close>, runs jscs on each
  JavaScript file and pylint once on all Python files, and prints two summary lines.

  Everything the script reads from outside (working directory, file system, command
  line, the output of git, of jscs and of pylint, the clock) is a field of the record
  \<open>env\<close>. Everything it does outside (printing, starting a process, calling pylint) is
  an \<open>event\<close>; a run is the list of its events, in order, with either the value computed
  or the way the run was cut short.

  The outside world answers a call by its arguments alone: the same jscs command line
  gives the same output each time it is run. Parsing the command line is left to
  \<^verbatim>\<open>argparse\<close>, and printing never fails. What git, jscs and pylint print to the
  terminal themselves is not part of a run.
\<close>

subsection \<open>Python strings\<close>

text \<open>\<^verbatim>\<open>s.endswith(suffix)\<close>\<close>

definition endswith :: "string \<Rightarrow> string \<Rightarrow> bool" where
  "endswith s suf = (length suf \<le> length s \<and> drop (length s - length suf) s = suf)"

text \<open>\<^verbatim>\<open>s.startswith(prefix)\<close>\<close>

definition startswith :: "string \<Rightarrow> string \<Rightarrow> bool" where
  "startswith s pre = (take (length pre) s = pre)"

text \<open>\<^verbatim>\<open>'%d' % n\<close> and \<^verbatim>\<open>'%s' % n\<close> for a count \<open>n\<close>: its decimal digits.\<close>

function str_nat :: "nat \<Rightarrow> string" where
  "str_nat n =
     (if n < 10 then [''0123456789'' ! n]
      else str_nat (n div 10) @ [''0123456789'' ! (n mod 10)])"
  by pat_completeness auto
termination
  by (relation "measure (\<lambda>n. n)") auto

declare str_nat.simps [simp del]

text \<open>\<^verbatim>\<open>sep.join(items)\<close>\<close>

fun str_join :: "string \<Rightarrow> string list \<Rightarrow> string" where
  "str_join sep [] = []"
| "str_join sep [x] = x"
| "str_join sep (x # y # ys) = x @ sep @ str_join sep (y # ys)"

text \<open>
  \<^verbatim>\<open>s.splitlines()\<close> on a Python 2 byte string: a line ends at \<^verbatim>\<open>\n\<close>, at \<^verbatim>\<open>\r\<close> or at
  \<^verbatim>\<open>\r\n\<close>; the line ends are dropped, and text after the last line end is a line
  when it is not empty. The first argument is the line read so far.
\<close>

fun splitlines_from :: "string \<Rightarrow> string \<Rightarrow> string list" where
  "splitlines_from cur [] = (if cur = [] then [] else [cur])"
| "splitlines_from cur (c # cs) =
     (if c = CHR 0x0A then cur # splitlines_from [] cs
      else if c = CHR 0x0D then
        (case cs of
           [] \<Rightarrow> [cur]
         | d # ds \<Rightarrow>
             if d = CHR 0x0A then cur # splitlines_from [] ds
             else cur # splitlines_from [] cs)
      else splitlines_from (cur @ [c]) cs)"

definition splitlines :: "string \<Rightarrow> string list" where
  "splitlines s = splitlines_from [] s"

text \<open>
  \<^verbatim>\<open>os.path.join(a, *p)\<close> of posixpath: an absolute component discards what came
  before it; otherwise components are joined by one slash.
\<close>

fun os_path_join :: "string \<Rightarrow> string list \<Rightarrow> string" where
  "os_path_join path [] = path"
| "os_path_join path (b # p) =
     (if startswith b ''/'' then os_path_join b p
      else if path = [] \<or> endswith path ''/'' then os_path_join (path @ b) p
      else os_path_join (path @ ''/'' @ b) p)"

subsection \<open>The environment, events and runs\<close>

text \<open>
  What \<^verbatim>\<open>lint.Run\<close> of pylint does when called: it raises \<^verbatim>\<open>SystemExit\<close> (the field
  is \<^verbatim>\<open>str(e)\<close> of the exception), returns, or raises another exception (the field is
  its name).
\<close>

datatype lint_outcome = SystemExit string | Returned | Raised string

record env =
  getcwd :: string
    \<comment> \<open>\<^verbatim>\<open>os.getcwd()\<close>\<close>
  arg_path :: "string option"
    \<comment> \<open>\<^verbatim>\<open>parsed_args.path\<close>: \<open>None\<close> without \<^verbatim>\<open>--path\<close>\<close>
  abspath :: "string \<Rightarrow> string"
    \<comment> \<open>\<^verbatim>\<open>os.path.abspath\<close>\<close>
  relpath :: "string \<Rightarrow> string \<Rightarrow> string"
    \<comment> \<open>\<^verbatim>\<open>os.path.relpath(path, start)\<close>\<close>
  path_exists :: "string \<Rightarrow> bool"
    \<comment> \<open>\<^verbatim>\<open>os.path.exists\<close>\<close>
  path_isfile :: "string \<Rightarrow> bool"
    \<comment> \<open>\<^verbatim>\<open>os.path.isfile\<close>\<close>
  os_walk :: "string \<Rightarrow> (string \<times> string list \<times> string list) list"
    \<comment> \<open>\<^verbatim>\<open>os.walk(top)\<close>: the triples (directory, subdirectories, files) it yields\<close>
  check_output :: "string list \<Rightarrow> string option"
    \<comment> \<open>\<^verbatim>\<open>subprocess.check_output(args)\<close>: the output, \<open>None\<close> when it raises\<close>
  communicate :: "string list \<Rightarrow> (string \<times> string) option"
    \<comment> \<open>\<^verbatim>\<open>subprocess.Popen(args, ...).communicate()\<close>: (stdout, stderr), \<open>None\<close> when
        the process cannot be started\<close>
  lint_Run :: "string list \<Rightarrow> lint_outcome"
    \<comment> \<open>\<^verbatim>\<open>lint.Run(args)\<close>\<close>
  js_secs :: string
    \<comment> \<open>the text of \<^verbatim>\<open>'%.1f' % (time.time() - start_time)\<close> in \<^verbatim>\<open>_lint_js_files\<close>\<close>
  py_secs :: string
    \<comment> \<open>the same text in \<^verbatim>\<open>_lint_py_files\<close>\<close>

datatype event =
    Print string
  | Git "string list"
  | Popen "string list"
  | Pylint "string list"

text \<open>
  A run is cut short by \<^verbatim>\<open>sys.exit(n)\<close> or by an exception that nothing catches.
\<close>

datatype abort = SysExit int | Uncaught string

type_synonym 'a run = "event list \<times> (abort + 'a)"

definition ret :: "'a \<Rightarrow> 'a run" where
  "ret x = ([], Inr x)"

definition emit :: "event list \<Rightarrow> unit run" where
  "emit evs = (evs, Inr ())"

definition and_then :: "'a run \<Rightarrow> ('a \<Rightarrow> 'b run) \<Rightarrow> 'b run" where
  "and_then m f =
     (case m of
        (tr, Inl a) \<Rightarrow> (tr, Inl a)
      | (tr, Inr x) \<Rightarrow> (case f x of (tr', r) \<Rightarrow> (tr @ tr', r)))"

text \<open>
  The exit status of the process: 0 when the script runs to its end, \<open>n\<close> after
  \<^verbatim>\<open>sys.exit(n)\<close>, 1 after an uncaught exception.
\<close>

definition exit_code :: "'a run \<Rightarrow> int" where
  "exit_code r =
     (case snd r of
        Inr _ \<Rightarrow> 0
      | Inl (SysExit n) \<Rightarrow> n
      | Inl (Uncaught _) \<Rightarrow> 1)"

definition hrule :: string where
  "hrule = ''----------------------------------------''"

subsection \<open>Module level: paths\<close>

definition PARENT_DIR :: "env \<Rightarrow> string" where
  "PARENT_DIR e = abspath e (os_path_join (getcwd e) [''..''])"

definition PYLINT_PATH :: "env \<Rightarrow> string" where
  "PYLINT_PATH e = os_path_join (PARENT_DIR e) [''oppia_tools'', ''pylint-1.5.2'']"

subsection \<open>\<^verbatim>\<open>_get_changed_filenames\<close>\<close>

definition get_changed_filenames :: "env \<Rightarrow> string list run" where
  "get_changed_filenames e =
     (let unstaged_args = [''git'', ''diff'', ''--name-only''];
          staged_args = [''git'', ''diff'', ''--cached'', ''--name-only'', ''--diff-filter=ACM'']
      in case check_output e unstaged_args of
           None \<Rightarrow> ([Git unstaged_args], Inl (Uncaught ''CalledProcessError''))
         | Some unstaged_out \<Rightarrow>
             (case check_output e staged_args of
                None \<Rightarrow>
                  ([Git unstaged_args, Git staged_args], Inl (Uncaught ''CalledProcessError''))
              | Some staged_out \<Rightarrow>
                  (let unstaged_files = splitlines unstaged_out;
                       staged_files = splitlines staged_out
                   in ([Git unstaged_args, Git staged_args],
                       Inr (unstaged_files @ staged_files)))))"

subsection \<open>\<^verbatim>\<open>_get_all_files_in_directory\<close>\<close>

definition get_all_files_in_directory :: "env \<Rightarrow> string \<Rightarrow> string list" where
  "get_all_files_in_directory e dir_path =
     concat (map (\<lambda>(dir, _, files).
                    map (\<lambda>file_name. relpath e (os_path_join dir [file_name]) (getcwd e)) files)
                 (os_walk e dir_path))"

subsection \<open>\<^verbatim>\<open>_lint_js_files\<close>\<close>

text \<open>
  The loop over \<^verbatim>\<open>enumerate(files_to_lint)\<close>: \<open>ind\<close> is the index of the first file of
  the list, the last argument is \<^verbatim>\<open>num_files_with_errors\<close> so far, the value is its
  final count.
\<close>

fun lint_js_loop :: "env \<Rightarrow> string list \<Rightarrow> nat \<Rightarrow> nat \<Rightarrow> string list \<Rightarrow> nat \<Rightarrow> nat run" where
  "lint_js_loop e jscs_cmd_args num_js_files ind [] num_files_with_errors =
     ret num_files_with_errors"
| "lint_js_loop e jscs_cmd_args num_js_files ind (filename # rest) num_files_with_errors =
     (let proc_args = jscs_cmd_args @ [filename] in
      and_then (emit [Print (''Linting file '' @ str_nat (ind + 1) @ ''/'' @
                             str_nat num_js_files @ '': '' @ filename @ '' ...''),
                      Popen proc_args]) (\<lambda>_.
      case communicate e proc_args of
        None \<Rightarrow> ([], Inl (Uncaught ''OSError''))
      | Some (linter_stdout, linter_stderr) \<Rightarrow>
          if linter_stderr \<noteq> [] then
            ([Print ''LINTER FAILED'', Print linter_stderr], Inl (SysExit 1))
          else if linter_stdout \<noteq> [] then
            and_then (emit [Print linter_stdout]) (\<lambda>_.
              lint_js_loop e jscs_cmd_args num_js_files (ind + 1) rest
                (num_files_with_errors + 1))
          else
            lint_js_loop e jscs_cmd_args num_js_files (ind + 1) rest
              num_files_with_errors))"

definition lint_js_files :: "env \<Rightarrow> string \<Rightarrow> string \<Rightarrow> string \<Rightarrow> string list \<Rightarrow> string run" where
  "lint_js_files e node_path jscs_path config_jscsrc files_to_lint =
     and_then (emit [Print hrule]) (\<lambda>_.
     let num_js_files = length files_to_lint in
     if files_to_lint = [] then
       and_then (emit [Print ''There are no JavaScript files to lint.'', Print hrule]) (\<lambda>_.
       ret [])
     else
       let jscs_cmd_args = [node_path, jscs_path, config_jscsrc] in
       and_then (lint_js_loop e jscs_cmd_args num_js_files 0 files_to_lint 0)
         (\<lambda>num_files_with_errors.
       and_then (emit [Print hrule]) (\<lambda>_.
       if num_files_with_errors \<noteq> 0 then
         ret (''FAILED    '' @ str_nat num_files_with_errors @ '' JavaScript files'')
       else
         ret (''SUCCESS   '' @ str_nat num_js_files @ '' JavaScript files linted ('' @
              js_secs e @ '' secs)''))))"

subsection \<open>\<^verbatim>\<open>_lint_py_files\<close>\<close>

definition lint_py_files :: "env \<Rightarrow> string \<Rightarrow> string list \<Rightarrow> string run" where
  "lint_py_files e config_pylint files_to_lint =
     and_then (emit [Print hrule]) (\<lambda>_.
     let num_py_files = length files_to_lint in
     if files_to_lint = [] then
       and_then (emit [Print ''There are no Python files to lint.'', Print hrule]) (\<lambda>_.
       ret [])
     else
       and_then (emit [Print (''Linting '' @ str_nat num_py_files @ '' files'' @ [CHR 0x0A]),
                       Pylint (files_to_lint @ [config_pylint])]) (\<lambda>_.
       and_then
         (case lint_Run e (files_to_lint @ [config_pylint]) of
            SystemExit s \<Rightarrow> ret (s \<noteq> ''0'')
          | Returned \<Rightarrow> ret False
          | Raised x \<Rightarrow> ([], Inl (Uncaught x)))
         (\<lambda>are_there_errors.
       and_then (emit [Print hrule]) (\<lambda>_.
       if are_there_errors then
         ret ''FAILED    Python linting failed''
       else
         ret (''SUCCESS   '' @ str_nat num_py_files @ '' Python files linted ('' @
              py_secs e @ '' secs)'')))))"

subsection \<open>\<^verbatim>\<open>_pre_commit_linter\<close>\<close>

text \<open>Python's truth value of \<^verbatim>\<open>input_path\<close>: \<^verbatim>\<open>None\<close> and the empty string are false.\<close>

definition truthy :: "string option \<Rightarrow> bool" where
  "truthy p = (case p of None \<Rightarrow> False | Some s \<Rightarrow> s \<noteq> [])"

text \<open>Lines 217 to 219: the working directory is checked, and only reported.\<close>

definition check_cwd :: "env \<Rightarrow> unit run" where
  "check_cwd e =
     (if \<not> endswith (getcwd e) ''oppia'' then
        emit [Print '''',
              Print ''ERROR    Please run this script from the oppia root directory.'']
      else ret ())"

text \<open>Lines 221 to 228: the value is \<^verbatim>\<open>input_path\<close> after these lines.\<close>

definition resolve_input_path :: "env \<Rightarrow> string option run" where
  "resolve_input_path e =
     (let input_path = arg_path e in
      if truthy input_path then
        (let input_path = os_path_join (getcwd e) [the (arg_path e)] in
         if \<not> path_exists e input_path then
           ([Print (''Could not locate file or directory '' @ input_path @ ''. Exiting.''),
             Print hrule],
            Inl (SysExit 0))
         else ret (Some input_path))
      else ret input_path)"

definition parent_dir :: "env \<Rightarrow> string" where
  "parent_dir e = abspath e (os_path_join (getcwd e) [''..''])"

definition jscsrc_path :: "env \<Rightarrow> string" where
  "jscsrc_path e = os_path_join (getcwd e) [''.jscsrc'']"

definition pylintrc_path :: "env \<Rightarrow> string" where
  "pylintrc_path e = os_path_join (getcwd e) [''.pylintrc'']"

definition config_jscsrc :: "env \<Rightarrow> string" where
  "config_jscsrc e = ''--config='' @ jscsrc_path e"

definition config_pylint :: "env \<Rightarrow> string" where
  "config_pylint e = ''--rcfile='' @ pylintrc_path e"

definition node_path :: "env \<Rightarrow> string" where
  "node_path e = os_path_join (parent_dir e) [''oppia_tools'', ''node-4.2.1'', ''bin'', ''node'']"

definition jscs_path :: "env \<Rightarrow> string" where
  "jscs_path e = os_path_join (parent_dir e) [''node_modules'', ''jscs'', ''bin'', ''jscs'']"

text \<open>Lines 243 to 246: the jscs binary is checked, and only reported.\<close>

definition check_jscs :: "env \<Rightarrow> unit run" where
  "check_jscs e =
     (if \<not> path_exists e (jscs_path e) then
        emit [Print '''',
              Print ''ERROR    Please run start.sh first to install node-jscs '',
              Print ''         and its dependencies.'']
      else ret ())"

text \<open>Lines 248 to 254: the value is \<^verbatim>\<open>all_files\<close>.\<close>

definition collect_all_files :: "env \<Rightarrow> string option \<Rightarrow> string list run" where
  "collect_all_files e input_path =
     (if truthy input_path then
        (if path_isfile e (the input_path) then ret [the input_path]
         else ret (get_all_files_in_directory e (the input_path)))
      else get_changed_filenames e)"

text \<open>Lines 256 to 259.\<close>

definition js_files_to_lint :: "string list \<Rightarrow> string list" where
  "js_files_to_lint all_files = filter (\<lambda>filename. endswith filename ''.js'') all_files"

definition py_files_to_lint :: "string list \<Rightarrow> string list" where
  "py_files_to_lint all_files = filter (\<lambda>filename. endswith filename ''.py'') all_files"

text \<open>Lines 261 to 267: the value is \<^verbatim>\<open>summary_messages\<close>.\<close>

definition lint_buckets :: "env \<Rightarrow> string list \<Rightarrow> string list run" where
  "lint_buckets e all_files =
     and_then (emit [Print (CHR 0x0A # ''Starting jscs linter...'')]) (\<lambda>_.
     and_then (lint_js_files e (node_path e) (jscs_path e) (config_jscsrc e)
                 (js_files_to_lint all_files)) (\<lambda>js_message.
     and_then (emit [Print (CHR 0x0A # ''Starting pylint...'')]) (\<lambda>_.
     and_then (lint_py_files e (config_pylint e) (py_files_to_lint all_files)) (\<lambda>py_message.
     ret [js_message, py_message]))))"

text \<open>Lines 217 to 254: the value is \<^verbatim>\<open>all_files\<close>, the candidate files of the run.\<close>

definition candidate_files :: "env \<Rightarrow> string list run" where
  "candidate_files e =
     and_then (check_cwd e) (\<lambda>_.
     and_then (resolve_input_path e) (\<lambda>input_path.
     and_then (check_jscs e) (\<lambda>_.
     collect_all_files e input_path)))"

definition summary_messages :: "env \<Rightarrow> string list run" where
  "summary_messages e = and_then (candidate_files e) (lint_buckets e)"

definition pre_commit_linter :: "env \<Rightarrow> unit run" where
  "pre_commit_linter e =
     and_then (summary_messages e) (\<lambda>msgs.
     emit [Print (str_join [CHR 0x0A] msgs), Print ''''])"

subsection \<open>The script: module level, then \<^verbatim>\<open>_pre_commit_linter()\<close>\<close>

text \<open>
  Lines 60 to 66 run when the module is loaded, before \<^verbatim>\<open>_pre_commit_linter\<close> is
  called: without the pylint directory the process exits with status 1.
\<close>

definition script :: "env \<Rightarrow> unit run" where
  "script e =
     (if \<not> path_exists e (PYLINT_PATH e) then
        ([Print '''',
          Print ''ERROR    Please run start.sh first to install pylint '',
          Print ''         and its dependencies.''],
         Inl (SysExit 1))
      else pre_commit_linter e)"

subsection \<open>Reading a run in the words of the specification\<close>

text \<open>
  The script has no type for the status of a bucket: \<^verbatim>\<open>_lint_js_files\<close> and
  \<^verbatim>\<open>_lint_py_files\<close> return the empty string for an empty bucket, a line that starts
  with \<^verbatim>\<open>FAILED\<close>, or a line that starts with \<^verbatim>\<open>SUCCESS\<close>. The status of the
  specification is read off the returned line; the overall status is Failure when some
  line is a Failure.
\<close>

datatype status = NotApplicable | Success | Failure

definition summary_status :: "string \<Rightarrow> status" where
  "summary_status msg =
     (if msg = [] then NotApplicable
      else if startswith msg ''FAILED'' then Failure
      else Success)"

definition overall_status :: "string list \<Rightarrow> status" where
  "overall_status msgs = (if Failure \<in> set (map summary_status msgs) then Failure else Success)"

text \<open>
  The outcome of one jscs call, as the loop of \<^verbatim>\<open>_lint_js_files\<close> tells them apart:
  text on the error stream is a tool error, otherwise text on the output stream is a
  file with violations, otherwise the file is clean.
\<close>

datatype outcome = Clean | Violations | ToolError

definition js_outcome :: "env \<Rightarrow> string list \<Rightarrow> string \<Rightarrow> outcome option" where
  "js_outcome e jscs_cmd_args filename =
     (case communicate e (jscs_cmd_args @ [filename]) of
        None \<Rightarrow> None
      | Some (linter_stdout, linter_stderr) \<Rightarrow>
          Some (if linter_stderr \<noteq> [] then ToolError
                else if linter_stdout \<noteq> [] then Violations
                else Clean))"


text \<open>The argument lists of the jscs processes started and of the pylint calls made, in order.\<close>

definition popen_args :: "event list \<Rightarrow> string list list" where
  "popen_args tr = concat (map (\<lambda>ev. case ev of Popen a \<Rightarrow> [a] | _ \<Rightarrow> []) tr)"

definition pylint_args :: "event list \<Rightarrow> string list list" where
  "pylint_args tr = concat (map (\<lambda>ev. case ev of Pylint a \<Rightarrow> [a] | _ \<Rightarrow> []) tr)"

definition git_args :: "event list \<Rightarrow> string list list" where
  "git_args tr = concat (map (\<lambda>ev. case ev of Git a \<Rightarrow> [a] | _ \<Rightarrow> []) tr)"

text \<open>The number of files of a bucket on which jscs reports violations.\<close>

definition num_violations :: "env \<Rightarrow> string list \<Rightarrow> string list \<Rightarrow> nat" where
  "num_violations e jscs_cmd_args files =
     length (filter (\<lambda>f. js_outcome e jscs_cmd_args f = Some Violations) files)"

text \<open>The status of the bucket a linter function was run on; none when it did not return.\<close>

definition bucket_status :: "string run \<Rightarrow> status option" where
  "bucket_status r = (case snd r of Inl _ \<Rightarrow> None | Inr msg \<Rightarrow> Some (summary_status msg))"

subsection \<open>Abbreviations for the lines the linter functions print and return\<close>

definition file_banner :: "nat \<Rightarrow> nat \<Rightarrow> string \<Rightarrow> event" where
  "file_banner ind n f =
     Print (''Linting file '' @ str_nat (ind + 1) @ ''/'' @ str_nat n @ '': '' @ f @ '' ...'')"

definition js_summary :: "env \<Rightarrow> nat \<Rightarrow> nat \<Rightarrow> string" where
  "js_summary e num_js_files num_files_with_errors =
     (if num_files_with_errors \<noteq> 0 then
        ''FAILED    '' @ str_nat num_files_with_errors @ '' JavaScript files''
      else ''SUCCESS   '' @ str_nat num_js_files @ '' JavaScript files linted ('' @
           js_secs e @ '' secs)'')"

definition py_banner :: "nat \<Rightarrow> event" where
  "py_banner n = Print (''Linting '' @ str_nat n @ '' files'' @ [CHR 0x0A])"

definition py_summary :: "env \<Rightarrow> nat \<Rightarrow> bool \<Rightarrow> string" where
  "py_summary e num_py_files are_there_errors =
     (if are_there_errors then ''FAILED    Python linting failed''
      else ''SUCCESS   '' @ str_nat num_py_files @ '' Python files linted ('' @
           py_secs e @ '' secs)'')"

text \<open>A file name with one of the two extensions the script looks for.\<close>

definition recognized :: "string \<Rightarrow> bool" where
  "recognized filename = (endswith filename ''.js'' \<or> endswith filename ''.py'')"

subsection \<open>Example environments\<close>

text \<open>
  A checkout in \<^verbatim>\<open>/w/oppia\<close> with every tool installed, no \<^verbatim>\<open>--path\<close>, nothing changed
  according to git, a jscs that finds nothing and a pylint that exits with 0.
\<close>

definition env_base :: env where
  "env_base =
     \<lparr> getcwd = ''/w/oppia'',
       arg_path = None,
       abspath = (\<lambda>p. if p = ''/w/oppia/..'' then ''/w'' else p),
       relpath = (\<lambda>p start. p),
       path_exists = (\<lambda>p. True),
       path_isfile = (\<lambda>p. False),
       os_walk = (\<lambda>top. []),
       check_output = (\<lambda>args. Some []),
       communicate = (\<lambda>args. Some ([], [])),
       lint_Run = (\<lambda>args. SystemExit ''0''),
       js_secs = ''0.1'',
       py_secs = ''0.2'' \<rparr>"

text \<open>
  A jscs that reports a violation in \<^verbatim>\<open>a.js\<close>, writes to its error stream on
  \<^verbatim>\<open>b.js\<close> and finds nothing in any other file.
\<close>

definition jscs_demo :: "string list \<Rightarrow> (string \<times> string) option" where
  "jscs_demo args =
     (if args = [] then None
      else if last args = ''a.js'' then Some (''a.js: bad indentation'', [])
      else if last args = ''b.js'' then Some ([], ''jscs: unknown option'')
      else Some ([], []))"

text \<open>A pylint that exits with 16 when \<^verbatim>\<open>bad.py\<close> is among its arguments, else with 0.\<close>

definition pylint_demo :: "string list \<Rightarrow> lint_outcome" where
  "pylint_demo args = (if ''bad.py'' \<in> set args then SystemExit ''16'' else SystemExit ''0'')"

text \<open>A git that prints the two given texts for the two queries of the script.\<close>

definition git_demo :: "string \<Rightarrow> string \<Rightarrow> string list \<Rightarrow> string option" where
  "git_demo unstaged_out staged_out args =
     (if args = [''git'', ''diff'', ''--name-only''] then Some unstaged_out
      else if args = [''git'', ''diff'', ''--cached'', ''--name-only'', ''--diff-filter=ACM'']
      then Some staged_out
      else None)"

definition env_changed :: "string \<Rightarrow> string \<Rightarrow> env" where
  "env_changed unstaged_out staged_out =
     env_base \<lparr> check_output := git_demo unstaged_out staged_out,
                communicate := jscs_demo, lint_Run := pylint_demo \<rparr>"

text \<open>The script called with \<^verbatim>\<open>--path nope\<close>, where \<^verbatim>\<open>/w/oppia/nope\<close> does not exist.\<close>

definition env_missing_path :: env where
  "env_missing_path =
     (env_changed [] []) \<lparr> arg_path := Some ''nope'',
                           path_exists := (\<lambda>p. p \<noteq> ''/w/oppia/nope'') \<rparr>"

text \<open>The jscs binary is not installed, and git reports \<^verbatim>\<open>x.py\<close> as changed.\<close>

definition env_no_jscs :: env where
  "env_no_jscs =
     (env_changed (''x.py'' @ [CHR 0x0A]) [])
       \<lparr> path_exists := (\<lambda>p. p \<noteq> ''/w/node_modules/jscs/bin/jscs'') \<rparr>"

text \<open>
  The script called with \<^verbatim>\<open>--path core/x.py\<close>, an existing file, while git reports
  \<^verbatim>\<open>a.js\<close> as changed.
\<close>

definition env_one_file :: env where
  "env_one_file =
     (env_changed (''a.js'' @ [CHR 0x0A]) [])
       \<lparr> arg_path := Some ''core/x.py'',
         path_isfile := (\<lambda>p. p = ''/w/oppia/core/x.py'') \<rparr>"

section \<open>Properties\<close>

subsection \<open>Sequencing\<close>

lemma and_then_Inl [simp]: "and_then (tr, Inl a) f = (tr, Inl a)"
  by (simp add: and_then_def)

lemma and_then_Inr [simp]: "and_then (tr, Inr x) f = (tr @ fst (f x), snd (f x))"
  by (simp add: and_then_def split: prod.splits)

lemma and_then_emit [simp]: "and_then (emit evs) f = (evs @ fst (f ()), snd (f ()))"
  by (simp add: emit_def)

lemma and_then_ret [simp]: "and_then (ret x) f = f x"
  by (simp add: ret_def)

lemma fst_and_then: "fst (and_then m f) = (case snd m of Inl a \<Rightarrow> fst m | Inr x \<Rightarrow> fst m @ fst (f x))"
  by (cases m) (auto split: sum.splits)

lemma snd_and_then: "snd (and_then m f) = (case snd m of Inl a \<Rightarrow> Inl a | Inr x \<Rightarrow> snd (f x))"
  by (cases m) (auto split: sum.splits)

lemma popen_args_append [simp]: "popen_args (xs @ ys) = popen_args xs @ popen_args ys"
  by (simp add: popen_args_def)

lemma popen_args_simps [simp]:
  "popen_args [] = []"
  "popen_args (Print s # tr) = popen_args tr"
  "popen_args (Git a # tr) = popen_args tr"
  "popen_args (Popen a # tr) = a # popen_args tr"
  "popen_args (Pylint a # tr) = popen_args tr"
  by (simp_all add: popen_args_def)

subsection \<open>The loop of \<^verbatim>\<open>_lint_js_files\<close>\<close>

lemma loop_step_oserror:
  "communicate e (cmd @ [f]) = None \<Longrightarrow>
   lint_js_loop e cmd n ind (f # fs) errs =
     ([file_banner ind n f, Popen (cmd @ [f])], Inl (Uncaught ''OSError''))"
  by (simp add: file_banner_def)

lemma loop_step_stderr:
  "communicate e (cmd @ [f]) = Some (out, err) \<Longrightarrow> err \<noteq> [] \<Longrightarrow>
   lint_js_loop e cmd n ind (f # fs) errs =
     ([file_banner ind n f, Popen (cmd @ [f]), Print ''LINTER FAILED'', Print err],
      Inl (SysExit 1))"
  by (simp add: file_banner_def)

lemma loop_step_stdout:
  "communicate e (cmd @ [f]) = Some (out, []) \<Longrightarrow> out \<noteq> [] \<Longrightarrow>
   lint_js_loop e cmd n ind (f # fs) errs =
     (file_banner ind n f # Popen (cmd @ [f]) # Print out #
        fst (lint_js_loop e cmd n (Suc ind) fs (Suc errs)),
      snd (lint_js_loop e cmd n (Suc ind) fs (Suc errs)))"
  by (simp add: file_banner_def)

lemma loop_step_clean:
  "communicate e (cmd @ [f]) = Some ([], []) \<Longrightarrow>
   lint_js_loop e cmd n ind (f # fs) errs =
     (file_banner ind n f # Popen (cmd @ [f]) #
        fst (lint_js_loop e cmd n (Suc ind) fs errs),
      snd (lint_js_loop e cmd n (Suc ind) fs errs))"
  by (simp add: file_banner_def)

lemmas loop_steps = loop_step_oserror loop_step_stderr loop_step_stdout loop_step_clean

lemma loop_Nil: "lint_js_loop e cmd n ind [] errs = ([], Inr errs)"
  by (simp add: ret_def)

declare lint_js_loop.simps [simp del]

lemma popen_args_banner [simp]: "popen_args (file_banner i n f # tr) = popen_args tr"
  by (simp add: file_banner_def)

lemma loop_calls_prefix:
  "k < length files \<Longrightarrow> communicate e (cmd @ [files ! k]) = Some (out, err) \<Longrightarrow> err \<noteq> [] \<Longrightarrow>
   \<exists>m\<le>Suc k. popen_args (fst (lint_js_loop e cmd n ind files errs)) =
      map (\<lambda>f. cmd @ [f]) (take m files)"
proof (induction files arbitrary: k ind errs)
  case Nil
  then show ?case by (simp add: loop_Nil)
next
  case (Cons f fs)
  let ?calls = "popen_args (fst (lint_js_loop e cmd n ind (f # fs) errs))"
  have stop: "?calls = [cmd @ [f]] \<Longrightarrow> ?case"
  proof -
    assume "?calls = [cmd @ [f]]"
    then have "?calls = map (\<lambda>f. cmd @ [f]) (take (Suc 0) (f # fs))" by simp
    then show ?case by (intro exI [of _ "Suc 0"]) simp
  qed
  show ?case
  proof (cases "communicate e (cmd @ [f])")
    case None
    then show ?thesis by (intro stop) (simp add: loop_step_oserror)
  next
    case (Some p)
    obtain o1 e1 where p: "p = (o1, e1)" by (cases p)
    show ?thesis
    proof (cases "e1 = []")
      case False
      with Some p show ?thesis by (intro stop) (simp add: loop_step_stderr)
    next
      case True
      with Cons.prems Some p obtain k' where k': "k = Suc k'"
        by (cases k) auto
      with Cons.prems have "k' < length fs" "communicate e (cmd @ [fs ! k']) = Some (out, err)"
        by auto
      from Cons.IH [OF this \<open>err \<noteq> []\<close>] have IH:
        "\<exists>m\<le>Suc k'. popen_args (fst (lint_js_loop e cmd n i fs x)) = map (\<lambda>f. cmd @ [f]) (take m fs)" for i x
        by blast
      show ?thesis
      proof (cases "o1 = []")
        case True
        from IH [of "Suc ind" errs] obtain m where m: "m \<le> Suc k'"
          "popen_args (fst (lint_js_loop e cmd n (Suc ind) fs errs)) = map (\<lambda>f. cmd @ [f]) (take m fs)"
          by blast
        with Some p \<open>e1 = []\<close> True have "?calls = map (\<lambda>f. cmd @ [f]) (take (Suc m) (f # fs))"
          by (simp add: loop_step_clean)
        with m(1) k' show ?thesis by (intro exI [of _ "Suc m"]) simp
      next
        case False
        from IH [of "Suc ind" "Suc errs"] obtain m where m: "m \<le> Suc k'"
          "popen_args (fst (lint_js_loop e cmd n (Suc ind) fs (Suc errs))) = map (\<lambda>f. cmd @ [f]) (take m fs)"
          by blast
        with Some p \<open>e1 = []\<close> False have "?calls = map (\<lambda>f. cmd @ [f]) (take (Suc m) (f # fs))"
          by (simp add: loop_step_stdout)
        with m(1) k' show ?thesis by (intro exI [of _ "Suc m"]) simp
      qed
    qed
  qed
qed


lemma pylint_args_append [simp]: "pylint_args (xs @ ys) = pylint_args xs @ pylint_args ys"
  by (simp add: pylint_args_def)

lemma pylint_args_simps [simp]:
  "pylint_args [] = []"
  "pylint_args (Print s # tr) = pylint_args tr"
  "pylint_args (Git a # tr) = pylint_args tr"
  "pylint_args (Popen a # tr) = pylint_args tr"
  "pylint_args (Pylint a # tr) = a # pylint_args tr"
  by (simp_all add: pylint_args_def)

lemma pylint_args_banner [simp]: "pylint_args (file_banner i n f # tr) = pylint_args tr"
  by (simp add: file_banner_def)

lemma loop_cases:
  obtains
    (oserror) "communicate e (cmd @ [f]) = None"
  | (stderr) out err where "communicate e (cmd @ [f]) = Some (out, err)" "err \<noteq> []"
  | (stdout) out where "communicate e (cmd @ [f]) = Some (out, [])" "out \<noteq> []"
  | (clean) "communicate e (cmd @ [f]) = Some ([], [])"
proof (cases "communicate e (cmd @ [f])")
  case None
  then show ?thesis by (rule oserror)
next
  case (Some p)
  then show ?thesis
    by (cases p; cases "snd p = []"; cases "fst p = []") (auto intro: stderr stdout clean)
qed

lemma loop_no_pylint: "pylint_args (fst (lint_js_loop e cmd n ind files errs)) = []"
proof (induction files arbitrary: ind errs)
  case Nil
  show ?case by (simp add: loop_Nil)
next
  case (Cons f fs)
  show ?case
    by (cases e cmd f rule: loop_cases) (simp_all add: loop_steps Cons.IH)
qed

lemma loop_completes:
  "\<forall>f\<in>set files. js_outcome e cmd f = Some Clean \<or> js_outcome e cmd f = Some Violations \<Longrightarrow>
   snd (lint_js_loop e cmd n ind files errs) = Inr (errs + num_violations e cmd files)"
proof (induction files arbitrary: ind errs)
  case Nil
  show ?case by (simp add: loop_Nil num_violations_def)
next
  case (Cons f fs)
  then have IH: "snd (lint_js_loop e cmd n i fs x) = Inr (x + num_violations e cmd fs)" for i x
    by simp
  from Cons.prems have f: "js_outcome e cmd f = Some Clean \<or> js_outcome e cmd f = Some Violations"
    by simp
  show ?case
  proof (cases e cmd f rule: loop_cases)
    case oserror
    with f show ?thesis by (simp add: js_outcome_def)
  next
    case (stderr out err)
    with f show ?thesis by (simp add: js_outcome_def)
  next
    case (stdout out)
    then have "js_outcome e cmd f = Some Violations" by (simp add: js_outcome_def)
    with stdout show ?thesis
      by (simp add: loop_step_stdout IH num_violations_def)
  next
    case clean
    then have "js_outcome e cmd f = Some Clean" by (simp add: js_outcome_def)
    with clean show ?thesis
      by (simp add: loop_step_clean IH num_violations_def)
  qed
qed

lemma loop_aborts:
  "\<exists>f\<in>set files. js_outcome e cmd f = Some ToolError \<Longrightarrow>
   snd (lint_js_loop e cmd n ind files errs) = Inl (SysExit 1) \<or>
   snd (lint_js_loop e cmd n ind files errs) = Inl (Uncaught ''OSError'')"
proof (induction files arbitrary: ind errs)
  case Nil
  then show ?case by simp
next
  case (Cons f fs)
  show ?case
  proof (cases e cmd f rule: loop_cases)
    case oserror
    then show ?thesis by (simp add: loop_step_oserror)
  next
    case (stderr out err)
    then show ?thesis by (simp add: loop_step_stderr)
  next
    case (stdout out)
    then have "js_outcome e cmd f \<noteq> Some ToolError" by (simp add: js_outcome_def)
    with Cons.prems have "\<exists>f\<in>set fs. js_outcome e cmd f = Some ToolError" by auto
    from Cons.IH [OF this] stdout show ?thesis
      by (simp add: loop_step_stdout)
  next
    case clean
    then have "js_outcome e cmd f \<noteq> Some ToolError" by (simp add: js_outcome_def)
    with Cons.prems have "\<exists>f\<in>set fs. js_outcome e cmd f = Some ToolError" by auto
    from Cons.IH [OF this] clean show ?thesis
      by (simp add: loop_step_clean)
  qed
qed

lemma lint_js_files_nonempty:
  "files \<noteq> [] \<Longrightarrow>
   lint_js_files e node jscs cfg files =
     (case lint_js_loop e [node, jscs, cfg] (length files) 0 files 0 of
        (tr, Inl a) \<Rightarrow> (Print hrule # tr, Inl a)
      | (tr, Inr k) \<Rightarrow> (Print hrule # tr @ [Print hrule], Inr (js_summary e (length files) k)))"
  by (simp add: lint_js_files_def Let_def js_summary_def ret_def split: prod.splits sum.splits)

lemma snd_lint_js_files:
  "files \<noteq> [] \<Longrightarrow>
   snd (lint_js_files e node jscs cfg files) =
     (case snd (lint_js_loop e [node, jscs, cfg] (length files) 0 files 0) of
        Inl a \<Rightarrow> Inl a
      | Inr k \<Rightarrow> Inr (js_summary e (length files) k))"
  by (simp add: lint_js_files_nonempty split: prod.splits sum.splits)

lemma lint_js_files_empty:
  "lint_js_files e node jscs cfg [] =
     ([Print hrule, Print ''There are no JavaScript files to lint.'', Print hrule], Inr [])"
  by (simp add: lint_js_files_def ret_def)

lemma lint_py_files_empty:
  "lint_py_files e cfg [] =
     ([Print hrule, Print ''There are no Python files to lint.'', Print hrule], Inr [])"
  by (simp add: lint_py_files_def ret_def)

lemma status_FAILED [simp]: "summary_status (''FAILED'' @ rest) = Failure"
  by (simp add: summary_status_def startswith_def)

lemma status_SUCCESS [simp]: "summary_status (''SUCCESS'' @ rest) = Success"
  by (simp add: summary_status_def startswith_def)

lemma popen_args_lint_js_files:
  "popen_args (fst (lint_js_files e node jscs cfg files)) =
   popen_args (fst (lint_js_loop e [node, jscs, cfg] (length files) 0 files 0))"
proof (cases "files = []")
  case True
  then show ?thesis by (simp add: lint_js_files_empty loop_Nil)
next
  case False
  then show ?thesis by (simp add: lint_js_files_nonempty split: prod.splits sum.splits)
qed

lemma pylint_args_lint_js_files: "pylint_args (fst (lint_js_files e node jscs cfg files)) = []"
proof (cases "files = []")
  case True
  then show ?thesis by (simp add: lint_js_files_empty)
next
  case False
  have "pylint_args (fst (lint_js_loop e [node, jscs, cfg] (length files) 0 files 0)) = []"
    by (rule loop_no_pylint)
  with False show ?thesis by (auto simp: lint_js_files_nonempty split: prod.splits sum.splits)
qed


subsection \<open>\<^verbatim>\<open>_lint_py_files\<close> and the summaries\<close>

lemma lint_py_files_nonempty:
  "files \<noteq> [] \<Longrightarrow>
   lint_py_files e cfg files =
     (case lint_Run e (files @ [cfg]) of
        SystemExit s \<Rightarrow>
          ([Print hrule, py_banner (length files), Pylint (files @ [cfg]), Print hrule],
           Inr (py_summary e (length files) (s \<noteq> ''0'')))
      | Returned \<Rightarrow>
          ([Print hrule, py_banner (length files), Pylint (files @ [cfg]), Print hrule],
           Inr (py_summary e (length files) False))
      | Raised x \<Rightarrow>
          ([Print hrule, py_banner (length files), Pylint (files @ [cfg])], Inl (Uncaught x)))"
  by (simp add: lint_py_files_def Let_def py_summary_def py_banner_def ret_def
           split: lint_outcome.splits)

lemma pylint_args_py_banner [simp]: "pylint_args (py_banner n # tr) = pylint_args tr"
  by (simp add: py_banner_def)

lemma popen_args_py_banner [simp]: "popen_args (py_banner n # tr) = popen_args tr"
  by (simp add: py_banner_def)

lemma status_py_summary [simp]:
  "summary_status (py_summary e n b) = (if b then Failure else Success)"
  by (simp add: py_summary_def summary_status_def startswith_def)

lemma status_js_summary [simp]:
  "summary_status (js_summary e n k) = (if k \<noteq> 0 then Failure else Success)"
  by (simp add: js_summary_def summary_status_def startswith_def)

lemma js_bucket_clean:
  assumes "files \<noteq> []"
    and "\<forall>f\<in>set files. js_outcome e [node, jscs, cfg] f = Some Clean"
  shows "bucket_status (lint_js_files e node jscs cfg files) = Some Success"
proof -
  let ?cmd = "[node, jscs, cfg]"
  from assms(2) have "num_violations e ?cmd files = 0"
    by (simp add: num_violations_def)
  moreover from assms(2)
  have "snd (lint_js_loop e ?cmd (length files) 0 files 0) =
      Inr (0 + num_violations e ?cmd files)"
    by (intro loop_completes) simp
  ultimately show ?thesis using assms(1)
    by (simp add: bucket_status_def snd_lint_js_files)
qed

lemma js_bucket_violations:
  assumes "\<forall>f\<in>set files. js_outcome e [node, jscs, cfg] f = Some Clean \<or>
                          js_outcome e [node, jscs, cfg] f = Some Violations"
    and "\<exists>f\<in>set files. js_outcome e [node, jscs, cfg] f = Some Violations"
  shows "bucket_status (lint_js_files e node jscs cfg files) = Some Failure"
proof -
  let ?cmd = "[node, jscs, cfg]"
  from assms(2) have ne: "files \<noteq> []" by auto
  from assms(2) have "filter (\<lambda>f. js_outcome e ?cmd f = Some Violations) files \<noteq> []"
    by (simp add: filter_empty_conv)
  then have "num_violations e ?cmd files \<noteq> 0"
    by (simp add: num_violations_def)
  moreover from assms(1)
  have "snd (lint_js_loop e ?cmd (length files) 0 files 0) =
      Inr (0 + num_violations e ?cmd files)"
    by (rule loop_completes)
  ultimately show ?thesis using ne
    by (simp add: bucket_status_def snd_lint_js_files)
qed

lemma js_bucket_tool_error:
  assumes "\<exists>f\<in>set files. js_outcome e [node, jscs, cfg] f = Some ToolError"
  shows "bucket_status (lint_js_files e node jscs cfg files) = None"
proof -
  from assms have ne: "files \<noteq> []" by auto
  from loop_aborts [OF assms, of "length files" 0 0] ne show ?thesis
    by (auto simp: bucket_status_def snd_lint_js_files)
qed

lemma py_bucket_status:
  assumes "files \<noteq> []" and "lint_Run e (files @ [cfg]) = SystemExit s"
  shows "bucket_status (lint_py_files e cfg files) =
           Some (if s = ''0'' then Success else Failure)"
  using assms by (simp add: lint_py_files_nonempty bucket_status_def)

subsection \<open>\<^verbatim>\<open>_pre_commit_linter\<close>\<close>

lemma pylint_args_get_changed_filenames: "pylint_args (fst (get_changed_filenames e)) = []"
  by (simp add: get_changed_filenames_def Let_def split: option.splits)

lemma popen_args_get_changed_filenames: "popen_args (fst (get_changed_filenames e)) = []"
  by (simp add: get_changed_filenames_def Let_def split: option.splits)

lemma candidate_files_unfold:
  "candidate_files e =
     (case resolve_input_path e of
        (tr, Inl a) \<Rightarrow> (fst (check_cwd e) @ tr, Inl a)
      | (tr, Inr input_path) \<Rightarrow>
          (fst (check_cwd e) @ tr @ fst (check_jscs e) @ fst (collect_all_files e input_path),
           snd (collect_all_files e input_path)))"
  by (simp add: candidate_files_def check_cwd_def check_jscs_def emit_def ret_def
           split: prod.splits sum.splits)

lemma candidate_files_no_linter:
  "pylint_args (fst (candidate_files e)) = [] \<and> popen_args (fst (candidate_files e)) = []"
  by (simp add: candidate_files_unfold check_cwd_def check_jscs_def resolve_input_path_def
        collect_all_files_def emit_def ret_def Let_def
        pylint_args_get_changed_filenames popen_args_get_changed_filenames
        split: prod.splits sum.splits)

lemma lint_buckets_filter:
  "lint_buckets e (filter recognized all_files) = lint_buckets e all_files"
proof -
  have "js_files_to_lint (filter recognized all_files) = js_files_to_lint all_files"
    unfolding js_files_to_lint_def recognized_def filter_filter
    by (rule filter_cong) auto
  moreover have "py_files_to_lint (filter recognized all_files) = py_files_to_lint all_files"
    unfolding py_files_to_lint_def recognized_def filter_filter
    by (rule filter_cong) auto
  ultimately show ?thesis by (simp add: lint_buckets_def)
qed

lemma lint_buckets_unfold:
  "lint_buckets e all_files =
     (case lint_js_files e (node_path e) (jscs_path e) (config_jscsrc e)
             (js_files_to_lint all_files) of
        (tr, Inl a) \<Rightarrow> (Print (CHR 0x0A # ''Starting jscs linter...'') # tr, Inl a)
      | (tr, Inr js_message) \<Rightarrow>
          (case lint_py_files e (config_pylint e) (py_files_to_lint all_files) of
             (tr', Inl a) \<Rightarrow>
               (Print (CHR 0x0A # ''Starting jscs linter...'') # tr @
                  Print (CHR 0x0A # ''Starting pylint...'') # tr', Inl a)
           | (tr', Inr py_message) \<Rightarrow>
               (Print (CHR 0x0A # ''Starting jscs linter...'') # tr @
                  Print (CHR 0x0A # ''Starting pylint...'') # tr', Inr [js_message, py_message])))"
  by (simp add: lint_buckets_def emit_def ret_def split: prod.splits sum.splits)

lemma script_unfold:
  "path_exists e (PYLINT_PATH e) \<Longrightarrow>
   script e =
     (case summary_messages e of
        (tr, Inl a) \<Rightarrow> (tr, Inl a)
      | (tr, Inr msgs) \<Rightarrow> (tr @ [Print (str_join [CHR 0x0A] msgs), Print ''''], Inr ()))"
  by (simp add: script_def pre_commit_linter_def emit_def split: prod.splits sum.splits)

subsection \<open>Unfolding the script on an example\<close>

lemmas run_defs =
  script_def pre_commit_linter_def summary_messages_def candidate_files_def
  lint_buckets_def check_cwd_def resolve_input_path_def check_jscs_def
  collect_all_files_def get_changed_filenames_def get_all_files_in_directory_def
  js_files_to_lint_def py_files_to_lint_def lint_js_files_def lint_js_loop.simps
  lint_py_files_def truthy_def endswith_def startswith_def splitlines_def
  PYLINT_PATH_def PARENT_DIR_def parent_dir_def node_path_def jscs_path_def
  config_jscsrc_def jscsrc_path_def config_pylint_def pylintrc_path_def
  emit_def ret_def str_nat.simps Let_def

lemmas demo_defs =
  env_changed_def env_base_def git_demo_def jscs_demo_def pylint_demo_def

section \<open>Claims\<close>

subsection \<open>C1: exit status and overall status\<close>

text \<open>
  C1, as amended. A run that gets as far as its two summary messages exits with
  status 0, whether the overall status of these messages is Success or Failure: the
  script prints the messages and never looks at them again.
\<close>

theorem exit_code_ignores_status:
  assumes "path_exists e (PYLINT_PATH e)" and "snd (summary_messages e) = Inr msgs"
  shows "(overall_status msgs = Success \<longrightarrow> exit_code (script e) = 0) \<and>
         (overall_status msgs = Failure \<longrightarrow> exit_code (script e) = 0)"
  using assms by (cases "summary_messages e") (simp add: script_unfold exit_code_def)

text \<open>
  Two runs: pylint exits with 16 on the changed file \<^verbatim>\<open>bad.py\<close> (overall Failure), and
  jscs finds nothing in the changed file \<^verbatim>\<open>c.js\<close> (overall Success). Both exit with 0.
\<close>

theorem exit_code_ignores_status_witness:
  "snd (summary_messages (env_changed (''bad.py'' @ [CHR 0x0A]) [])) =
     Inr [[], ''FAILED    Python linting failed''] \<and>
   overall_status [[], ''FAILED    Python linting failed''] = Failure \<and>
   exit_code (script (env_changed (''bad.py'' @ [CHR 0x0A]) [])) = 0 \<and>
   snd (summary_messages (env_changed (''c.js'' @ [CHR 0x0A]) [])) =
     Inr [''SUCCESS   1 JavaScript files linted (0.1 secs)'', []] \<and>
   overall_status [''SUCCESS   1 JavaScript files linted (0.1 secs)'', []] = Success \<and>
   exit_code (script (env_changed (''c.js'' @ [CHR 0x0A]) [])) = 0"
proof -
  let ?e = "env_changed (''bad.py'' @ [CHR 0x0A]) []"
  let ?e' = "env_changed (''c.js'' @ [CHR 0x0A]) []"
  have h1: "path_exists ?e (PYLINT_PATH ?e)" by (simp add: demo_defs)
  have h2: "snd (summary_messages ?e) = Inr [[], ''FAILED    Python linting failed'']"
    by (simp add: run_defs demo_defs)
  have s: "overall_status [[], ''FAILED    Python linting failed''] = Failure"
    by (simp add: overall_status_def summary_status_def startswith_def)
  have h1': "path_exists ?e' (PYLINT_PATH ?e')" by (simp add: demo_defs)
  have h2': "snd (summary_messages ?e') =
      Inr [''SUCCESS   1 JavaScript files linted (0.1 secs)'', []]"
    by (simp add: run_defs demo_defs)
  have s': "overall_status [''SUCCESS   1 JavaScript files linted (0.1 secs)'', []] = Success"
    by (simp add: overall_status_def summary_status_def startswith_def)
  from exit_code_ignores_status [OF h1 h2] exit_code_ignores_status [OF h1' h2'] h2 h2' s s'
  show ?thesis by simp
qed

text \<open>
  C1 as stated fails: git reports \<^verbatim>\<open>a.js\<close> as changed, jscs prints a violation for it,
  the JavaScript summary is \<^verbatim>\<open>FAILED    1 JavaScript files\<close>, the overall status is
  Failure, and the exit status is 0.
\<close>

theorem js_violation_exits_zero:
  "snd (summary_messages (env_changed (''a.js'' @ [CHR 0x0A]) [])) =
     Inr [''FAILED    1 JavaScript files'', []] \<and>
   overall_status [''FAILED    1 JavaScript files'', []] = Failure \<and>
   exit_code (script (env_changed (''a.js'' @ [CHR 0x0A]) [])) = 0"
  by (simp add: run_defs demo_defs exit_code_def overall_status_def summary_status_def)

subsection \<open>C2: an explicit path that does not exist\<close>

text \<open>
  C2, on the code. Called with \<^verbatim>\<open>--path nope\<close> where \<^verbatim>\<open>/w/oppia/nope\<close> does not exist,
  the script prints that it cannot locate the path and stops at once, before git or
  any linter is called, by \<^verbatim>\<open>sys.exit(0)\<close>: the exit status is 0, where C2 asks for
  a status other than 0.
\<close>

theorem missing_path_exits_zero:
  "script env_missing_path =
     ([Print ''Could not locate file or directory /w/oppia/nope. Exiting.'', Print hrule],
      Inl (SysExit 0)) \<and>
   exit_code (script env_missing_path) = 0"
  by (simp add: env_missing_path_def run_defs demo_defs exit_code_def)

subsection \<open>C3: a tool error in the JavaScript bucket\<close>

text \<open>
  C3, as amended. When the jscs call on the file at position \<open>k\<close> (counted from 0) of
  the JavaScript bucket writes to its error stream, the whole run ends in that bucket,
  by \<^verbatim>\<open>sys.exit(1)\<close> (or by the exception of an earlier jscs process that could not be
  started), with exit status 1. The jscs calls of the run are the calls on the first
  \<open>m\<close> files of the bucket, in order, for some \<open>m \<le> k + 1\<close>, so the rest of the bucket is
  abandoned; and pylint is never called, so the Python bucket is not linted.
\<close>

theorem js_tool_error_ends_run:
  assumes "path_exists e (PYLINT_PATH e)"
    and "snd (candidate_files e) = Inr all_files"
    and "k < length (js_files_to_lint all_files)"
    and "communicate e [node_path e, jscs_path e, config_jscsrc e, js_files_to_lint all_files ! k] =
           Some (out, err)"
    and "err \<noteq> []"
  shows "(snd (script e) = Inl (SysExit 1) \<or> snd (script e) = Inl (Uncaught ''OSError'')) \<and>
         exit_code (script e) = 1 \<and>
         pylint_args (fst (script e)) = [] \<and>
         (\<exists>m\<le>Suc k. popen_args (fst (script e)) =
            map (\<lambda>f. [node_path e, jscs_path e, config_jscsrc e, f])
              (take m (js_files_to_lint all_files)))"
proof -
  let ?js = "js_files_to_lint all_files"
  let ?cmd = "[node_path e, jscs_path e, config_jscsrc e]"
  let ?run = "lint_js_files e (node_path e) (jscs_path e) (config_jscsrc e) ?js"
  from assms(3) have ne: "?js \<noteq> []" by auto
  from assms(3-5) have tool: "\<exists>f\<in>set ?js. js_outcome e ?cmd f = Some ToolError"
    by (auto simp: js_outcome_def intro!: bexI [of _ "?js ! k"])
  from loop_aborts [OF tool, of "length ?js" 0 0] ne
  obtain a where a: "snd ?run = Inl a" "a = SysExit 1 \<or> a = Uncaught ''OSError''"
    by (auto simp: snd_lint_js_files)
  then have lb: "lint_buckets e all_files =
      (Print (CHR 0x0A # ''Starting jscs linter...'') # fst ?run, Inl a)"
    by (cases ?run) (simp add: lint_buckets_unfold)
  obtain tr where tr: "candidate_files e = (tr, Inr all_files)"
    using assms(2) by (cases "candidate_files e") simp
  with candidate_files_no_linter [of e] have ntr: "pylint_args tr = []" "popen_args tr = []"
    by simp_all
  from tr lb have sm: "summary_messages e =
      (tr @ Print (CHR 0x0A # ''Starting jscs linter...'') # fst ?run, Inl a)"
    by (simp add: summary_messages_def)
  with assms(1) have sc: "script e =
      (tr @ Print (CHR 0x0A # ''Starting jscs linter...'') # fst ?run, Inl a)"
    by (simp add: script_unfold)
  from loop_calls_prefix [of k ?js e ?cmd out err "length ?js" 0 0] assms(3-5)
  obtain m where m: "m \<le> Suc k"
    "popen_args (fst ?run) = map (\<lambda>f. ?cmd @ [f]) (take m ?js)"
    by (auto simp: popen_args_lint_js_files)
  from sc ntr m(2) have "popen_args (fst (script e)) =
      map (\<lambda>f. [node_path e, jscs_path e, config_jscsrc e, f]) (take m ?js)"
    by simp
  with m(1) have calls: "\<exists>m\<le>Suc k. popen_args (fst (script e)) =
      map (\<lambda>f. [node_path e, jscs_path e, config_jscsrc e, f]) (take m ?js)"
    by blast
  from sc a(2) ntr have "(snd (script e) = Inl (SysExit 1) \<or> snd (script e) = Inl (Uncaught ''OSError'')) \<and>
         exit_code (script e) = 1 \<and> pylint_args (fst (script e)) = []"
    by (auto simp: exit_code_def pylint_args_lint_js_files)
  with calls show ?thesis by blast
qed

text \<open>
  Git reports \<^verbatim>\<open>a.js\<close>, \<^verbatim>\<open>b.js\<close> and \<^verbatim>\<open>c.js\<close> as changed and \<^verbatim>\<open>x.py\<close> as staged;
  jscs writes to its error stream on \<^verbatim>\<open>b.js\<close>. jscs is run on \<^verbatim>\<open>a.js\<close> and on
  \<^verbatim>\<open>b.js\<close>, never on \<^verbatim>\<open>c.js\<close>, and pylint is not called.
\<close>

theorem js_tool_error_ends_run_witness:
  "snd (candidate_files
          (env_changed (''a.js'' @ [CHR 0x0A] @ ''b.js'' @ [CHR 0x0A] @ ''c.js'' @ [CHR 0x0A])
             (''x.py'' @ [CHR 0x0A]))) =
     Inr [''a.js'', ''b.js'', ''c.js'', ''x.py''] \<and>
   snd (script
          (env_changed (''a.js'' @ [CHR 0x0A] @ ''b.js'' @ [CHR 0x0A] @ ''c.js'' @ [CHR 0x0A])
             (''x.py'' @ [CHR 0x0A]))) = Inl (SysExit 1) \<and>
   exit_code (script
          (env_changed (''a.js'' @ [CHR 0x0A] @ ''b.js'' @ [CHR 0x0A] @ ''c.js'' @ [CHR 0x0A])
             (''x.py'' @ [CHR 0x0A]))) = 1 \<and>
   pylint_args (fst (script
          (env_changed (''a.js'' @ [CHR 0x0A] @ ''b.js'' @ [CHR 0x0A] @ ''c.js'' @ [CHR 0x0A])
             (''x.py'' @ [CHR 0x0A])))) = [] \<and>
   popen_args (fst (script
          (env_changed (''a.js'' @ [CHR 0x0A] @ ''b.js'' @ [CHR 0x0A] @ ''c.js'' @ [CHR 0x0A])
             (''x.py'' @ [CHR 0x0A])))) =
     [[''/w/oppia_tools/node-4.2.1/bin/node'', ''/w/node_modules/jscs/bin/jscs'',
       ''--config=/w/oppia/.jscsrc'', ''a.js''],
      [''/w/oppia_tools/node-4.2.1/bin/node'', ''/w/node_modules/jscs/bin/jscs'',
       ''--config=/w/oppia/.jscsrc'', ''b.js'']] \<and>
   (\<exists>m\<le>Suc 1. popen_args (fst (script
          (env_changed (''a.js'' @ [CHR 0x0A] @ ''b.js'' @ [CHR 0x0A] @ ''c.js'' @ [CHR 0x0A])
             (''x.py'' @ [CHR 0x0A])))) =
      map (\<lambda>f. [''/w/oppia_tools/node-4.2.1/bin/node'', ''/w/node_modules/jscs/bin/jscs'',
                  ''--config=/w/oppia/.jscsrc'', f])
        (take m [''a.js'', ''b.js'', ''c.js'']))"
proof -
  let ?e = "env_changed (''a.js'' @ [CHR 0x0A] @ ''b.js'' @ [CHR 0x0A] @ ''c.js'' @ [CHR 0x0A])
              (''x.py'' @ [CHR 0x0A])"
  have h1: "path_exists ?e (PYLINT_PATH ?e)"
    by (simp add: demo_defs)
  have h2: "snd (candidate_files ?e) = Inr [''a.js'', ''b.js'', ''c.js'', ''x.py'']"
    by (simp add: run_defs demo_defs)
  have js: "js_files_to_lint [''a.js'', ''b.js'', ''c.js'', ''x.py''] = [''a.js'', ''b.js'', ''c.js'']"
    by (simp add: js_files_to_lint_def endswith_def)
  have p: "node_path ?e = ''/w/oppia_tools/node-4.2.1/bin/node''"
    "jscs_path ?e = ''/w/node_modules/jscs/bin/jscs''"
    "config_jscsrc ?e = ''--config=/w/oppia/.jscsrc''"
    by (simp_all add: run_defs demo_defs)
  have h3: "1 < length (js_files_to_lint [''a.js'', ''b.js'', ''c.js'', ''x.py''])"
    by (simp add: js)
  have h4: "communicate ?e [node_path ?e, jscs_path ?e, config_jscsrc ?e,
        js_files_to_lint [''a.js'', ''b.js'', ''c.js'', ''x.py''] ! 1] =
      Some ([], ''jscs: unknown option'')"
    by (simp add: js demo_defs)
  have ev: "snd (script ?e) = Inl (SysExit 1)"
    "popen_args (fst (script ?e)) =
     [[''/w/oppia_tools/node-4.2.1/bin/node'', ''/w/node_modules/jscs/bin/jscs'',
       ''--config=/w/oppia/.jscsrc'', ''a.js''],
      [''/w/oppia_tools/node-4.2.1/bin/node'', ''/w/node_modules/jscs/bin/jscs'',
       ''--config=/w/oppia/.jscsrc'', ''b.js'']]"
    by (simp_all add: run_defs demo_defs)
  from js_tool_error_ends_run [OF h1 h2 h3 h4] h2 ev show ?thesis
    unfolding js p by simp
qed

text \<open>
  C3 as stated fails: with \<^verbatim>\<open>b.js\<close> and \<^verbatim>\<open>x.py\<close> changed and jscs writing to its error
  stream on \<^verbatim>\<open>b.js\<close>, the Python bucket holds \<^verbatim>\<open>x.py\<close>, yet pylint is never called
  and the run ends by \<^verbatim>\<open>sys.exit(1)\<close>.
\<close>

theorem js_tool_error_skips_pylint:
  "py_files_to_lint [''b.js'', ''x.py''] = [''x.py''] \<and>
   snd (candidate_files (env_changed (''b.js'' @ [CHR 0x0A] @ ''x.py'' @ [CHR 0x0A]) [])) =
     Inr [''b.js'', ''x.py''] \<and>
   pylint_args (fst (script (env_changed (''b.js'' @ [CHR 0x0A] @ ''x.py'' @ [CHR 0x0A]) []))) = [] \<and>
   snd (script (env_changed (''b.js'' @ [CHR 0x0A] @ ''x.py'' @ [CHR 0x0A]) [])) = Inl (SysExit 1)"
  by (simp add: run_defs demo_defs)

subsection \<open>C4: a linter that is not installed\<close>

text \<open>
  C4, on the code. Without the jscs binary, and with \<^verbatim>\<open>x.py\<close> changed, the script
  prints its error message and goes on: pylint is called on \<^verbatim>\<open>x.py\<close>, the script runs
  to its end and the exit status is 0, where C4 asks for a run that stops before any
  linting with a status other than 0.
\<close>

theorem missing_jscs_run_continues:
  "\<not> path_exists env_no_jscs (jscs_path env_no_jscs) \<and>
   pylint_args (fst (script env_no_jscs)) = [[''x.py'', ''--rcfile=/w/oppia/.pylintrc'']] \<and>
   snd (script env_no_jscs) = Inr () \<and>
   exit_code (script env_no_jscs) = 0"
  by (simp add: env_no_jscs_def run_defs demo_defs exit_code_def)

subsection \<open>C5: the summary of a bucket\<close>

text \<open>
  C5, as amended. An empty bucket gives the empty summary (NotApplicable), for both
  languages. A JavaScript bucket \<open>cs\<close> that is not empty and whose files are all clean
  gives Success. A JavaScript bucket \<open>vs\<close> in which every jscs call yields Clean or
  Violations, and at least one Violations, gives Failure. A JavaScript bucket \<open>ts\<close> in
  which some jscs call writes to its error stream gives no summary at all. A Python
  bucket that is not empty gives Success when pylint exits with \<^verbatim>\<open>0\<close> on it, and
  Failure when pylint exits with anything else.
\<close>

theorem bucket_status_by_outcome:
  "bucket_status (lint_js_files e node jscs cfg []) = Some NotApplicable \<and>
   bucket_status (lint_py_files e pycfg []) = Some NotApplicable \<and>
   (cs \<noteq> [] \<and> (\<forall>f\<in>set cs. js_outcome e [node, jscs, cfg] f = Some Clean) \<longrightarrow>
      bucket_status (lint_js_files e node jscs cfg cs) = Some Success) \<and>
   ((\<forall>f\<in>set vs. js_outcome e [node, jscs, cfg] f = Some Clean \<or>
                 js_outcome e [node, jscs, cfg] f = Some Violations) \<and>
    (\<exists>f\<in>set vs. js_outcome e [node, jscs, cfg] f = Some Violations) \<longrightarrow>
      bucket_status (lint_js_files e node jscs cfg vs) = Some Failure) \<and>
   ((\<exists>f\<in>set ts. js_outcome e [node, jscs, cfg] f = Some ToolError) \<longrightarrow>
      bucket_status (lint_js_files e node jscs cfg ts) = None) \<and>
   (ps \<noteq> [] \<and> lint_Run e (ps @ [pycfg]) = SystemExit ''0'' \<longrightarrow>
      bucket_status (lint_py_files e pycfg ps) = Some Success) \<and>
   (qs \<noteq> [] \<and> lint_Run e (qs @ [pycfg]) = SystemExit s \<and> s \<noteq> ''0'' \<longrightarrow>
      bucket_status (lint_py_files e pycfg qs) = Some Failure)"
proof -
  have "bucket_status (lint_js_files e node jscs cfg []) = Some NotApplicable"
    by (simp add: lint_js_files_empty bucket_status_def summary_status_def)
  moreover have "bucket_status (lint_py_files e pycfg []) = Some NotApplicable"
    by (simp add: lint_py_files_empty bucket_status_def summary_status_def)
  ultimately show ?thesis
    using js_bucket_clean [of cs e node jscs cfg] js_bucket_violations [of vs e node jscs cfg]
      js_bucket_tool_error [of ts e node jscs cfg]
      py_bucket_status [of ps e pycfg "''0''"] py_bucket_status [of qs e pycfg s]
    by simp
qed

text \<open>
  With the jscs and the pylint of the examples: \<^verbatim>\<open>c.js\<close> and \<^verbatim>\<open>d.js\<close> are clean,
  \<^verbatim>\<open>a.js\<close> has a violation, jscs fails on \<^verbatim>\<open>b.js\<close>, and pylint exits with 16 on
  \<^verbatim>\<open>bad.py\<close>.
\<close>

theorem bucket_status_by_outcome_witness:
  "bucket_status (lint_js_files (env_changed [] []) ''node'' ''jscs'' ''--config=rc''
      [''c.js'', ''d.js'']) = Some Success \<and>
   bucket_status (lint_js_files (env_changed [] []) ''node'' ''jscs'' ''--config=rc''
      [''c.js'', ''a.js'']) = Some Failure \<and>
   bucket_status (lint_js_files (env_changed [] []) ''node'' ''jscs'' ''--config=rc''
      [''c.js'', ''b.js'']) = None \<and>
   bucket_status (lint_py_files (env_changed [] []) ''--rcfile=rc'' [''x.py'']) = Some Success \<and>
   bucket_status (lint_py_files (env_changed [] []) ''--rcfile=rc'' [''bad.py'']) = Some Failure"
proof -
  let ?e = "env_changed [] []"
  let ?cmd = "[''node'', ''jscs'', ''--config=rc'']"
  have c: "js_outcome ?e ?cmd ''c.js'' = Some Clean" "js_outcome ?e ?cmd ''d.js'' = Some Clean"
    by (simp_all add: js_outcome_def demo_defs)
  have a: "js_outcome ?e ?cmd ''a.js'' = Some Violations"
    by (simp add: js_outcome_def demo_defs)
  have b: "js_outcome ?e ?cmd ''b.js'' = Some ToolError"
    by (simp add: js_outcome_def demo_defs)
  have p: "lint_Run ?e ([''x.py''] @ [''--rcfile=rc'']) = SystemExit ''0''"
    by (simp add: demo_defs)
  have q: "lint_Run ?e ([''bad.py''] @ [''--rcfile=rc'']) = SystemExit ''16''"
    by (simp add: demo_defs)
  from bucket_status_by_outcome [of ?e "''node''" "''jscs''" "''--config=rc''" "''--rcfile=rc''"
      "[''c.js'', ''d.js'']" "[''c.js'', ''a.js'']" "[''c.js'', ''b.js'']" "[''x.py'']"
      "[''bad.py'']" "''16''"] a b c p q
  show ?thesis by simp
qed

text \<open>
  C5 as stated fails: in the bucket \<^verbatim>\<open>a.js\<close>, \<^verbatim>\<open>b.js\<close> the first file yields
  Violations, then jscs writes to its error stream on the second and the script
  leaves by \<^verbatim>\<open>sys.exit(1)\<close>: \<^verbatim>\<open>_lint_js_files\<close> returns no summary, so the bucket has
  no status Failure.
\<close>

theorem violations_then_tool_error_no_summary:
  "js_outcome (env_changed [] []) [''node'', ''jscs'', ''--config=rc''] ''a.js'' = Some Violations \<and>
   snd (lint_js_files (env_changed [] []) ''node'' ''jscs'' ''--config=rc'' [''a.js'', ''b.js'']) =
     Inl (SysExit 1) \<and>
   bucket_status (lint_js_files (env_changed [] []) ''node'' ''jscs'' ''--config=rc''
     [''a.js'', ''b.js'']) \<noteq> Some Failure"
  by (simp add: js_outcome_def bucket_status_def run_defs demo_defs)

subsection \<open>C6: nothing is linted after a tool error\<close>

text \<open>
  C6. In a bucket of JavaScript files, when the jscs call on the file at position \<open>k\<close>
  (counted from 0) writes to its error stream, the jscs calls of the whole bucket are
  the calls on the first \<open>m\<close> files, in order, for some \<open>m \<le> k + 1\<close>: no file after
  position \<open>k\<close> is ever passed to the linter.
\<close>

theorem tool_error_stops_bucket:
  assumes "k < length files"
    and "communicate e [node, jscs, cfg, files ! k] = Some (out, err)"
    and "err \<noteq> []"
  shows "\<exists>m\<le>Suc k. popen_args (fst (lint_js_files e node jscs cfg files)) =
           map (\<lambda>f. [node, jscs, cfg, f]) (take m files)"
  using loop_calls_prefix [of k files e "[node, jscs, cfg]" out err "length files" 0 0] assms
  by (simp add: popen_args_lint_js_files)

text \<open>Four files, jscs fails on the second: the third and the fourth are never linted.\<close>

theorem tool_error_stops_bucket_witness:
  "communicate (env_changed [] [])
     [''node'', ''jscs'', ''--config=x'', [''a.js'', ''b.js'', ''c.js'', ''d.js''] ! 1] =
     Some ([], ''jscs: unknown option'') \<and>
   (\<exists>m\<le>Suc 1.
      popen_args (fst (lint_js_files (env_changed [] []) ''node'' ''jscs'' ''--config=x''
         [''a.js'', ''b.js'', ''c.js'', ''d.js''])) =
      map (\<lambda>f. [''node'', ''jscs'', ''--config=x'', f])
        (take m [''a.js'', ''b.js'', ''c.js'', ''d.js'']))"
proof -
  have h: "communicate (env_changed [] [])
      [''node'', ''jscs'', ''--config=x'', [''a.js'', ''b.js'', ''c.js'', ''d.js''] ! 1] =
      Some ([], ''jscs: unknown option'')"
    by (simp add: demo_defs)
  have l: "1 < length [''a.js'', ''b.js'', ''c.js'', ''d.js'']" by simp
  from tool_error_stops_bucket [OF l h] h show ?thesis by blast
qed

subsection \<open>C7: the changed files\<close>

text \<open>
  C7. Without an explicit path, the candidate files are the lines of the output of
  \<^verbatim>\<open>git diff --name-only\<close> followed by the lines of the output of
  \<^verbatim>\<open>git diff --cached --name-only --diff-filter=ACM\<close>, in this order, and nothing is
  removed: a file in both lists is a candidate twice.
\<close>

theorem changed_files_unstaged_then_staged:
  assumes "\<not> truthy (arg_path e)"
    and "check_output e [''git'', ''diff'', ''--name-only''] = Some unstaged_out"
    and "check_output e [''git'', ''diff'', ''--cached'', ''--name-only'', ''--diff-filter=ACM''] =
           Some staged_out"
  shows "snd (candidate_files e) = Inr (splitlines unstaged_out @ splitlines staged_out)"
  using assms
  by (simp add: candidate_files_unfold resolve_input_path_def collect_all_files_def
        get_changed_filenames_def ret_def Let_def)

text \<open>\<^verbatim>\<open>a.js\<close> is changed and staged: it is a candidate twice.\<close>

theorem changed_files_unstaged_then_staged_witness:
  "snd (candidate_files
          (env_changed (''a.js'' @ [CHR 0x0A] @ ''x.py'' @ [CHR 0x0A]) (''a.js'' @ [CHR 0x0A]))) =
     Inr [''a.js'', ''x.py'', ''a.js'']"
proof -
  let ?e = "env_changed (''a.js'' @ [CHR 0x0A] @ ''x.py'' @ [CHR 0x0A]) (''a.js'' @ [CHR 0x0A])"
  have h1: "\<not> truthy (arg_path ?e)" by (simp add: demo_defs truthy_def)
  have h2: "check_output ?e [''git'', ''diff'', ''--name-only''] =
      Some (''a.js'' @ [CHR 0x0A] @ ''x.py'' @ [CHR 0x0A])"
    by (simp add: demo_defs)
  have h3: "check_output ?e [''git'', ''diff'', ''--cached'', ''--name-only'', ''--diff-filter=ACM''] =
      Some (''a.js'' @ [CHR 0x0A])"
    by (simp add: demo_defs)
  from changed_files_unstaged_then_staged [OF h1 h2 h3] show ?thesis
    by (simp add: splitlines_def)
qed

subsection \<open>C8: an explicit file\<close>

text \<open>
  C8. With an explicit path that is an existing file, the candidate files are that
  one path (the argument joined to the working directory, as the script resolves it)
  and nothing else, and git is not asked.
\<close>

theorem explicit_file_single_candidate:
  assumes "arg_path e = Some p" and "p \<noteq> []"
    and "path_exists e (os_path_join (getcwd e) [p])"
    and "path_isfile e (os_path_join (getcwd e) [p])"
  shows "snd (candidate_files e) = Inr [os_path_join (getcwd e) [p]] \<and>
         git_args (fst (candidate_files e)) = []"
  using assms
  by (simp add: candidate_files_unfold resolve_input_path_def collect_all_files_def
        truthy_def ret_def emit_def Let_def check_cwd_def check_jscs_def git_args_def)

text \<open>\<^verbatim>\<open>--path core/x.py\<close> while git reports \<^verbatim>\<open>a.js\<close> as changed.\<close>

theorem explicit_file_single_candidate_witness:
  "snd (candidate_files env_one_file) = Inr [''/w/oppia/core/x.py''] \<and>
   git_args (fst (candidate_files env_one_file)) = []"
proof -
  have h1: "arg_path env_one_file = Some ''core/x.py''"
    by (simp add: env_one_file_def)
  have j: "os_path_join (getcwd env_one_file) [''core/x.py''] = ''/w/oppia/core/x.py''"
    by (simp add: env_one_file_def demo_defs startswith_def endswith_def)
  have h3: "path_exists env_one_file (os_path_join (getcwd env_one_file) [''core/x.py''])"
    unfolding j by (simp add: env_one_file_def demo_defs)
  have h4: "path_isfile env_one_file (os_path_join (getcwd env_one_file) [''core/x.py''])"
    unfolding j by (simp add: env_one_file_def demo_defs)
  from explicit_file_single_candidate [OF h1 _ h3 h4] j show ?thesis by simp
qed

subsection \<open>C9: files with other extensions\<close>

text \<open>
  C9. A file whose name ends neither in \<^verbatim>\<open>.js\<close> nor in \<^verbatim>\<open>.py\<close> is in neither bucket;
  each bucket is a subsequence of the candidate files, so it keeps their order; and
  linting the candidate files is the same run, with the same result, as linting them
  with every such file removed.
\<close>

theorem unrecognized_extensions_dropped:
  "(\<forall>f. \<not> endswith f ''.js'' \<and> \<not> endswith f ''.py'' \<longrightarrow>
      f \<notin> set (js_files_to_lint all_files) \<and> f \<notin> set (py_files_to_lint all_files)) \<and>
   subseq (js_files_to_lint all_files) all_files \<and>
   subseq (py_files_to_lint all_files) all_files \<and>
   lint_buckets e (filter recognized all_files) = lint_buckets e all_files"
  by (simp add: lint_buckets_filter) (simp add: js_files_to_lint_def py_files_to_lint_def)

theorem unrecognized_extensions_dropped_witness:
  "''c.txt'' \<notin> set (js_files_to_lint [''b.js'', ''c.txt'', ''x.py'', ''a.js'']) \<and>
   ''c.txt'' \<notin> set (py_files_to_lint [''b.js'', ''c.txt'', ''x.py'', ''a.js'']) \<and>
   js_files_to_lint [''b.js'', ''c.txt'', ''x.py'', ''a.js''] = [''b.js'', ''a.js''] \<and>
   subseq [''b.js'', ''a.js''] [''b.js'', ''c.txt'', ''x.py'', ''a.js''] \<and>
   lint_buckets env_base [''b.js'', ''x.py'', ''a.js''] =
     lint_buckets env_base [''b.js'', ''c.txt'', ''x.py'', ''a.js'']"
proof -
  have h: "\<not> endswith ''c.txt'' ''.js'' \<and> \<not> endswith ''c.txt'' ''.py''"
    by (simp add: endswith_def)
  have js: "js_files_to_lint [''b.js'', ''c.txt'', ''x.py'', ''a.js''] = [''b.js'', ''a.js'']"
    by (simp add: js_files_to_lint_def endswith_def)
  have f: "filter recognized [''b.js'', ''c.txt'', ''x.py'', ''a.js''] = [''b.js'', ''x.py'', ''a.js'']"
    by (simp add: recognized_def endswith_def)
  from unrecognized_extensions_dropped [of "[''b.js'', ''c.txt'', ''x.py'', ''a.js'']" env_base]
    h js f
  show ?thesis by metis
qed

subsection \<open>C10: the Python bucket is one pylint call\<close>

text \<open>
  C10. \<^verbatim>\<open>_lint_py_files\<close> calls pylint once, on all files of the bucket followed by
  the configuration argument (and not at all on an empty bucket); it starts no
  process and never leaves by \<^verbatim>\<open>sys.exit\<close>, so the error-stream rule of the
  JavaScript bucket has no part in it; and when pylint raises \<^verbatim>\<open>SystemExit\<close> the
  summary depends on its text alone: \<^verbatim>\<open>0\<close> gives the SUCCESS line, any other text
  the same line \<^verbatim>\<open>FAILED    Python linting failed\<close>, whatever made pylint exit so.
\<close>

theorem pylint_single_batch:
  "(files = [] \<longrightarrow> pylint_args (fst (lint_py_files e cfg files)) = []) \<and>
   (files \<noteq> [] \<longrightarrow> pylint_args (fst (lint_py_files e cfg files)) = [files @ [cfg]]) \<and>
   popen_args (fst (lint_py_files e cfg files)) = [] \<and>
   (\<forall>n. snd (lint_py_files e cfg files) \<noteq> Inl (SysExit n)) \<and>
   (\<forall>s. files \<noteq> [] \<and> lint_Run e (files @ [cfg]) = SystemExit s \<longrightarrow>
      snd (lint_py_files e cfg files) =
        Inr (if s = ''0''
             then ''SUCCESS   '' @ str_nat (length files) @ '' Python files linted ('' @
                  py_secs e @ '' secs)''
             else ''FAILED    Python linting failed'') \<and>
      bucket_status (lint_py_files e cfg files) =
        Some (if s = ''0'' then Success else Failure))"
proof (cases "files = []")
  case True
  then show ?thesis by (simp add: lint_py_files_empty)
next
  case False
  then show ?thesis
    by (cases "lint_Run e (files @ [cfg])")
       (simp_all add: lint_py_files_nonempty bucket_status_def, simp_all add: py_summary_def)
qed

text \<open>Two files, pylint exits with 16.\<close>

theorem pylint_single_batch_witness:
  "pylint_args (fst (lint_py_files (env_changed [] []) ''--rcfile=rc'' [''x.py'', ''bad.py''])) =
     [[''x.py'', ''bad.py'', ''--rcfile=rc'']] \<and>
   snd (lint_py_files (env_changed [] []) ''--rcfile=rc'' [''x.py'', ''bad.py'']) =
     Inr ''FAILED    Python linting failed'' \<and>
   bucket_status (lint_py_files (env_changed [] []) ''--rcfile=rc'' [''x.py'', ''bad.py'']) =
     Some Failure"
proof -
  have h: "lint_Run (env_changed [] []) ([''x.py'', ''bad.py''] @ [''--rcfile=rc'']) =
      SystemExit ''16''"
    by (simp add: demo_defs)
  from pylint_single_batch [of "[''x.py'', ''bad.py'']" "env_changed [] []" "''--rcfile=rc''"] h
  show ?thesis by simp
qed

end
